theory Spec2Isabelle
  imports Main "HOL-Library.Sublist"
begin

section \<open>The getProblem request script\<close>

text \<open>
  \<^verbatim>\<open>getproblem.py\<close> builds one fixed JSON payload, posts it once to a fixed URL with
  \<^verbatim>\<open>requests.post\<close>, and prints either the decoded reply or one of two messages.
  The script itself is the three module constants and one \<^verbatim>\<open>try\<close> statement; they are
  embedded in the subsection on the script below. What the script calls (the \<^verbatim>\<open>json\<close>
  module, the \<^verbatim>\<open>requests\<close> library, \<^verbatim>\<open>print\<close>) is its environment, and a run takes it as
  a parameter: what \<^verbatim>\<open>requests.post\<close> returns or raises, what \<^verbatim>\<open>json()\<close> returns or raises,
  and what \<^verbatim>\<open>print\<close> writes for a value. Two further layers make runs concrete. The first
  follows the library from the one call down to the wire: the bound on each wait and the
  redirects it follows. The second evaluates \<^verbatim>\<open>json.dumps\<close>, JSON decoding and \<^verbatim>\<open>str\<close> on
  ASCII texts of integers, strings, booleans, \<^verbatim>\<open>null\<close>, lists and objects, which is where the
  payload and the replies of the runs evaluated here lie.

  Text is a \<^typ>\<open>string\<close>: the bytes of its UTF-8 encoding, which is how the source file
  holds its literals and how \<^verbatim>\<open>print\<close> writes them to a UTF-8 terminal.
\<close>

subsection \<open>Python values that travel as JSON\<close>

text \<open>
  \<^verbatim>\<open>None\<close>, \<^verbatim>\<open>bool\<close>, \<^verbatim>\<open>int\<close>, \<^verbatim>\<open>str\<close>, \<^verbatim>\<open>list\<close> and \<^verbatim>\<open>dict\<close> with string keys. A dict is
  an association list in insertion order with distinct keys. Floats are left out.
\<close>

datatype json =
    JNull
  | JBool bool
  | JInt int
  | JStr string
  | JArr "json list"
  | JObj "(string \<times> json) list"

definition dquote :: char where
  "dquote = CHR 0x22"

definition backslash :: char where
  "backslash = CHR 0x5C"

definition newline :: char where
  "newline = CHR 0x0A"

definition hexdigit :: "nat \<Rightarrow> char" where
  "hexdigit n = ''0123456789abcdef'' ! (n mod 16)"

definition hex2 :: "char \<Rightarrow> string" where
  "hex2 c = [hexdigit (of_char c div 16), hexdigit (of_char c mod 16)]"

fun show_nat :: "nat \<Rightarrow> string" where
  "show_nat n =
     (if n < 10 then [char_of (48 + n)]
      else show_nat (n div 10) @ [char_of (48 + n mod 10)])"

definition show_int :: "int \<Rightarrow> string" where
  "show_int i = (if i < 0 then CHR ''-'' # show_nat (nat (- i)) else show_nat (nat i))"

fun join :: "string \<Rightarrow> string list \<Rightarrow> string" where
  "join sep [] = []"
| "join sep [x] = x"
| "join sep (x # y # ys) = x @ sep @ join sep (y # ys)"

subsection \<open>\<^verbatim>\<open>json.dumps\<close> with its default arguments\<close>

text \<open>
  The default encoder separates items with \<^verbatim>\<open>", "\<close> and a key from its value with
  \<^verbatim>\<open>": "\<close>, and (\<^verbatim>\<open>ensure_ascii\<close>) writes every character outside the printable ASCII
  range, the double quote and the backslash as an escape. The payload is ASCII; a byte
  outside that range is written as \<^verbatim>\<open>\u00XX\<close>, Python's output for the code point of
  that number.
\<close>

definition escape_char :: "char \<Rightarrow> string" where
  "escape_char c =
     (if c = dquote then [backslash, dquote]
      else if c = backslash then [backslash, backslash]
      else if c = newline then [backslash, CHR ''n'']
      else if c = CHR 0x0D then [backslash, CHR ''r'']
      else if c = CHR 0x09 then [backslash, CHR ''t'']
      else if c = CHR 0x08 then [backslash, CHR ''b'']
      else if c = CHR 0x0C then [backslash, CHR ''f'']
      else if (of_char c :: nat) < 0x20 \<or> (of_char c :: nat) > 0x7E
        then [backslash, CHR ''u'', CHR ''0'', CHR ''0''] @ hex2 c
      else [c])"

definition encode_str :: "string \<Rightarrow> string" where
  "encode_str s = dquote # concat (map escape_char s) @ [dquote]"

fun dumps :: "json \<Rightarrow> string" where
  "dumps JNull = ''null''"
| "dumps (JBool b) = (if b then ''true'' else ''false'')"
| "dumps (JInt i) = show_int i"
| "dumps (JStr s) = encode_str s"
| "dumps (JArr vs) = ''['' @ join '', '' (map dumps vs) @ '']''"
| "dumps (JObj kvs) =
     ''{'' @ join '', '' (map (\<lambda>(k, v). encode_str k @ '': '' @ dumps v) kvs) @ ''}''"

subsection \<open>JSON decoding, as \<^verbatim>\<open>json.loads\<close> does it\<close>

text \<open>
  A recursive-descent reader of the JSON grammar in the order of Python's decoder:
  white space is skipped around values and delimiters, a trailing comma is an error, text
  after the value is an error, and a key that occurs twice keeps its first position and
  its last value. The result \<open>None\<close> stands for a text Python rejects, and also for
  the texts this model leaves out: numbers with a fraction or an exponent, the constants
  \<^verbatim>\<open>NaN\<close> and \<^verbatim>\<open>Infinity\<close>, and \<^verbatim>\<open>\u\<close> escapes beyond ASCII. The limits that the
  interpreter sets on the digits of an integer and on the depth of nesting are left out
  as well. The recursion is bounded by a counter that starts above the length of the text.
\<close>

definition is_ws :: "char \<Rightarrow> bool" where
  "is_ws c = (c = CHR '' '' \<or> c = CHR 0x09 \<or> c = newline \<or> c = CHR 0x0D)"

definition skip_ws :: "string \<Rightarrow> string" where
  "skip_ws s = dropWhile is_ws s"

definition starts :: "char \<Rightarrow> string \<Rightarrow> bool" where
  "starts c s = (case s of [] \<Rightarrow> False | d # _ \<Rightarrow> d = c)"

definition is_digit :: "char \<Rightarrow> bool" where
  "is_digit c = (48 \<le> (of_char c :: nat) \<and> (of_char c :: nat) \<le> 57)"

definition digits_value :: "string \<Rightarrow> nat" where
  "digits_value ds = foldl (\<lambda>a d. 10 * a + (of_char d - 48)) 0 ds"

definition hex_value :: "char \<Rightarrow> nat option" where
  "hex_value c =
     (let n = (of_char c :: nat) in
      if 48 \<le> n \<and> n \<le> 57 then Some (n - 48)
      else if 97 \<le> n \<and> n \<le> 102 then Some (n - 87)
      else if 65 \<le> n \<and> n \<le> 70 then Some (n - 55)
      else None)"

fun hex4 :: "string \<Rightarrow> nat option" where
  "hex4 [a, b, c, d] =
     (case (hex_value a, hex_value b, hex_value c, hex_value d) of
        (Some w, Some x, Some y, Some z) \<Rightarrow> Some (((w * 16 + x) * 16 + y) * 16 + z)
      | _ \<Rightarrow> None)"
| "hex4 _ = None"

definition unescape :: "char \<Rightarrow> char option" where
  "unescape e =
     (if e = dquote then Some dquote
      else if e = backslash then Some backslash
      else if e = CHR ''/'' then Some (CHR ''/'')
      else if e = CHR ''b'' then Some (CHR 0x08)
      else if e = CHR ''f'' then Some (CHR 0x0C)
      else if e = CHR ''n'' then Some newline
      else if e = CHR ''r'' then Some (CHR 0x0D)
      else if e = CHR ''t'' then Some (CHR 0x09)
      else None)"

text \<open>The characters of a string after its opening quote, and the text after its close.\<close>

fun scan_string :: "string \<Rightarrow> (string \<times> string) option" where
  "scan_string [] = None"
| "scan_string [c] = (if c = dquote then Some ([], []) else None)"
| "scan_string (c # e # cs) =
     (if c = dquote then Some ([], e # cs)
      else if c = backslash then
        (if e = CHR ''u'' then
           (case hex4 (take 4 cs) of
              None \<Rightarrow> None
            | Some n \<Rightarrow>
                if n < 0x80
                then map_option (\<lambda>(s, r). (char_of n # s, r)) (scan_string (drop 4 cs))
                else None)
         else
           (case unescape e of
              None \<Rightarrow> None
            | Some d \<Rightarrow> map_option (\<lambda>(s, r). (d # s, r)) (scan_string cs)))
      else if (of_char c :: nat) < 0x20 then None
      else map_option (\<lambda>(s, r). (c # s, r)) (scan_string (e # cs)))"

definition parse_number :: "string \<Rightarrow> (json \<times> string) option" where
  "parse_number s =
     (let neg = starts (CHR ''-'') s;
          r = (if neg then tl s else s);
          ds = (if starts (CHR ''0'') r then ''0'' else takeWhile is_digit r);
          rest = drop (length ds) r
      in if ds = [] then None
         else if starts (CHR ''.'') rest \<or> starts (CHR ''e'') rest \<or> starts (CHR ''E'') rest
           then None
         else Some (JInt (if neg then - int (digits_value ds) else int (digits_value ds)), rest))"

fun dict_set :: "string \<Rightarrow> json \<Rightarrow> (string \<times> json) list \<Rightarrow> (string \<times> json) list" where
  "dict_set k v [] = [(k, v)]"
| "dict_set k v ((k', v') # kvs) =
     (if k' = k then (k, v) # kvs else (k', v') # dict_set k v kvs)"

fun parse_value :: "nat \<Rightarrow> string \<Rightarrow> (json \<times> string) option"
  and parse_array :: "nat \<Rightarrow> json list \<Rightarrow> string \<Rightarrow> (json \<times> string) option"
  and parse_object :: "nat \<Rightarrow> (string \<times> json) list \<Rightarrow> string \<Rightarrow> (json \<times> string) option"
where
  "parse_value 0 s = None"
| "parse_value (Suc n) s =
     (if starts dquote s then
        map_option (\<lambda>(t, r). (JStr t, r)) (scan_string (tl s))
      else if starts (CHR ''{'') s then
        (let r = skip_ws (tl s)
         in if starts (CHR ''}'') r then Some (JObj [], tl r) else parse_object n [] r)
      else if starts (CHR ''['') s then
        (let r = skip_ws (tl s)
         in if starts (CHR '']'') r then Some (JArr [], tl r) else parse_array n [] r)
      else if take 4 s = ''null'' then Some (JNull, drop 4 s)
      else if take 4 s = ''true'' then Some (JBool True, drop 4 s)
      else if take 5 s = ''false'' then Some (JBool False, drop 5 s)
      else parse_number s)"
| "parse_array 0 acc s = None"
| "parse_array (Suc n) acc s =
     (case parse_value n s of
        None \<Rightarrow> None
      | Some (v, r) \<Rightarrow>
          (let r' = skip_ws r
           in if starts (CHR '']'') r' then Some (JArr (acc @ [v]), tl r')
              else if starts (CHR '','') r' then parse_array n (acc @ [v]) (skip_ws (tl r'))
              else None))"
| "parse_object 0 acc s = None"
| "parse_object (Suc n) acc s =
     (if \<not> starts dquote s then None
      else
        (case scan_string (tl s) of
           None \<Rightarrow> None
         | Some (k, r1) \<Rightarrow>
             (if \<not> starts (CHR '':'') (skip_ws r1) then None
              else
                (case parse_value n (skip_ws (tl (skip_ws r1))) of
                   None \<Rightarrow> None
                 | Some (v, r2) \<Rightarrow>
                     (let r3 = skip_ws r2
                      in if starts (CHR ''}'') r3 then Some (JObj (dict_set k v acc), tl r3)
                         else if starts (CHR '','') r3
                           then parse_object n (dict_set k v acc) (skip_ws (tl r3))
                         else None)))))"

definition loads :: "string \<Rightarrow> json option" where
  "loads s =
     (case parse_value (Suc (length s)) (skip_ws s) of
        None \<Rightarrow> None
      | Some (v, r) \<Rightarrow> if skip_ws r = [] then Some v else None)"

subsection \<open>\<^verbatim>\<open>repr\<close> and \<^verbatim>\<open>str\<close> of a value\<close>

text \<open>
  A string is quoted with single quotes, or with double quotes when it contains a single
  quote and no double quote; the quote in use and the backslash are escaped, and so are
  the ASCII control characters. Bytes above ASCII are passed on, as Python does for the
  printable characters they encode; the runs evaluated here print ASCII only.
\<close>

definition repr_char :: "char \<Rightarrow> char \<Rightarrow> string" where
  "repr_char q c =
     (if c = q \<or> c = backslash then [backslash, c]
      else if c = CHR 0x09 then [backslash, CHR ''t'']
      else if c = newline then [backslash, CHR ''n'']
      else if c = CHR 0x0D then [backslash, CHR ''r'']
      else if (of_char c :: nat) < 0x20 \<or> (of_char c :: nat) = 0x7F
        then [backslash, CHR ''x''] @ hex2 c
      else [c])"

definition repr_str :: "string \<Rightarrow> string" where
  "repr_str s =
     (let q = (if CHR 0x27 \<in> set s \<and> dquote \<notin> set s then dquote else CHR 0x27)
      in q # concat (map (repr_char q) s) @ [q])"

fun repr :: "json \<Rightarrow> string" where
  "repr JNull = ''None''"
| "repr (JBool b) = (if b then ''True'' else ''False'')"
| "repr (JInt i) = show_int i"
| "repr (JStr s) = repr_str s"
| "repr (JArr vs) = ''['' @ join '', '' (map repr vs) @ '']''"
| "repr (JObj kvs) =
     ''{'' @ join '', '' (map (\<lambda>(k, v). repr_str k @ '': '' @ repr v) kvs) @ ''}''"

text \<open>
  \<^verbatim>\<open>print(v)\<close> writes \<^verbatim>\<open>str(v)\<close>: a string as it is, without quotes or escapes, and any
  other value as its \<^verbatim>\<open>repr\<close>.
\<close>

fun py_str :: "json \<Rightarrow> string" where
  "py_str (JStr s) = s"
| "py_str v = repr v"

subsection \<open>What the script sees of its environment\<close>

text \<open>
  The arguments of the one call \<^verbatim>\<open>requests.post(url, headers=..., data=..., timeout=...)\<close>;
  \<open>req_method\<close> is the HTTP method that \<^verbatim>\<open>post\<close> stands for.
\<close>

record request =
  req_method :: string
  req_url :: string
  req_headers :: "(string \<times> string) list"
  req_data :: string
  req_timeout :: int

record response =
  status_code :: nat
  content :: string

text \<open>
  A raised exception, as far as the handlers can tell exceptions apart: the outcome of
  the two \<^verbatim>\<open>isinstance\<close> tests that the \<^verbatim>\<open>except\<close> clauses make, and \<^verbatim>\<open>str(e)\<close>.
\<close>

record exc =
  is_Timeout :: bool
  is_RequestException :: bool
  descr :: string

text \<open>
  The network together with the installed library and interpreter: what
  \<^verbatim>\<open>requests.post\<close> returns or raises for a request, what the method \<^verbatim>\<open>json()\<close> of a
  response returns or raises, and what \<^verbatim>\<open>print\<close> does with a value: the text \<^verbatim>\<open>str(v)\<close>
  that it writes before the line break, or the exception raised on the way. The type
  \<open>'v\<close> stands for the Python objects that \<^verbatim>\<open>json()\<close> can return.
\<close>

record 'v env =
  post_outcome :: "request \<Rightarrow> exc + response"
  json_outcome :: "response \<Rightarrow> exc + 'v"
  print_outcome :: "'v \<Rightarrow> exc + string"

text \<open>The observable trace of a run: the calls made to the library and the text printed.\<close>

record world =
  sent :: "request list"
  stdout :: string

datatype exit = Normal | Uncaught exc

definition world0 :: world where
  "world0 = \<lparr>sent = [], stdout = []\<rparr>"

definition print :: "string \<Rightarrow> world \<Rightarrow> world" where
  "print s w = w\<lparr>stdout := stdout w @ s @ [newline]\<rparr>"

definition requests_post ::
  "'v env \<Rightarrow> string \<Rightarrow> (string \<times> string) list \<Rightarrow> string \<Rightarrow> int \<Rightarrow> world \<Rightarrow> world \<times> (exc + response)"
where
  "requests_post E u hs d t w =
     (let rq = \<lparr>req_method = ''POST'', req_url = u, req_headers = hs, req_data = d,
                req_timeout = t\<rparr>
      in (w\<lparr>sent := sent w @ [rq]\<rparr>, post_outcome E rq))"

text \<open>
  The method \<^verbatim>\<open>json()\<close> and \<^verbatim>\<open>print\<close> on the texts and values covered by the decoder and
  by \<open>py_str\<close> above. \<^verbatim>\<open>json()\<close> decodes the content whatever the status code is, and
  raises the library's decoding exception \<open>err\<close> when the content does not decode; the
  class of that exception depends on the installed version of the library, so it is a
  parameter. The content is taken as text; how the library finds the encoding of the
  bytes of a body is left out. These two stand in for the library only in runs on
  concrete ASCII replies; the properties of the script are stated for every environment.
\<close>

definition response_json :: "exc \<Rightarrow> response \<Rightarrow> exc + json" where
  "response_json err r = (case loads (content r) of None \<Rightarrow> Inl err | Some v \<Rightarrow> Inr v)"

definition python_print :: "json \<Rightarrow> exc + string" where
  "python_print v = Inr (py_str v)"

text \<open>
  Exceptions of the library by the classes they are instances of:
  \<^verbatim>\<open>ReadTimeout\<close> derives from \<^verbatim>\<open>Timeout\<close>, which derives from \<^verbatim>\<open>RequestException\<close>;
  \<^verbatim>\<open>ConnectTimeout\<close> derives from \<^verbatim>\<open>ConnectionError\<close> and from \<^verbatim>\<open>Timeout\<close>;
  \<^verbatim>\<open>ConnectionError\<close> derives from \<^verbatim>\<open>RequestException\<close> only;
  \<^verbatim>\<open>requests.exceptions.JSONDecodeError\<close> (raised by \<^verbatim>\<open>json()\<close> since version 2.27 of the
  library) derives from \<^verbatim>\<open>RequestException\<close>; the \<^verbatim>\<open>json.JSONDecodeError\<close> of the standard
  library (raised by \<^verbatim>\<open>json()\<close> before that version) is a \<^verbatim>\<open>ValueError\<close> and derives from
  neither; \<^verbatim>\<open>TooManyRedirects\<close> derives from \<^verbatim>\<open>RequestException\<close> only, and so does
  \<^verbatim>\<open>InvalidSchema\<close> as far as the two classes of the handlers go.
\<close>

definition ReadTimeout :: "string \<Rightarrow> exc" where
  "ReadTimeout m = \<lparr>is_Timeout = True, is_RequestException = True, descr = m\<rparr>"

definition ConnectionError :: "string \<Rightarrow> exc" where
  "ConnectionError m = \<lparr>is_Timeout = False, is_RequestException = True, descr = m\<rparr>"

definition ConnectTimeout :: "string \<Rightarrow> exc" where
  "ConnectTimeout m = \<lparr>is_Timeout = True, is_RequestException = True, descr = m\<rparr>"

definition requests_JSONDecodeError :: "string \<Rightarrow> exc" where
  "requests_JSONDecodeError m = \<lparr>is_Timeout = False, is_RequestException = True, descr = m\<rparr>"

definition json_JSONDecodeError :: "string \<Rightarrow> exc" where
  "json_JSONDecodeError m = \<lparr>is_Timeout = False, is_RequestException = False, descr = m\<rparr>"

definition TooManyRedirects :: "string \<Rightarrow> exc" where
  "TooManyRedirects m = \<lparr>is_Timeout = False, is_RequestException = True, descr = m\<rparr>"

definition InvalidSchema :: "string \<Rightarrow> exc" where
  "InvalidSchema m = \<lparr>is_Timeout = False, is_RequestException = True, descr = m\<rparr>"

subsection \<open>The script\<close>

definition url :: string where
  "url = ''http://162.105.151.213:2000/api/problem/getProblem''"

definition headers :: "(string \<times> string) list" where
  "headers = [(''Content-Type'', ''application/json'')]"

definition data :: json where
  "data = JObj
     [(''displayId'', JInt 1002),
      (''discussionCount'', JBool True),
      (''judgeInfo'', JBool True),
      (''judgeInfoToBePreprocessed'', JBool True),
      (''lastSubmissionAndLastAcceptedSubmission'', JBool True),
      (''localizedContentsOfLocale'', JStr ''zh_CN''),
      (''permissionOfCurrentUser'', JBool True),
      (''samples'', JBool True),
      (''statistics'', JBool True),
      (''tagsOfLocale'', JStr ''zh_CN'')]"

text \<open>The two message literals, as the UTF-8 bytes of the source file.\<close>

definition timeout_message :: string where
  "timeout_message =
     [CHR 0xE8, CHR 0xAF, CHR 0xB7, CHR 0xE6, CHR 0xB1, CHR 0x82,
      CHR 0xE8, CHR 0xB6, CHR 0x85, CHR 0xE6, CHR 0x97, CHR 0xB6]"

definition error_prefix :: string where
  "error_prefix =
     [CHR 0xE8, CHR 0xAF, CHR 0xB7, CHR 0xE6, CHR 0xB1, CHR 0x82,
      CHR 0xE9, CHR 0x94, CHR 0x99, CHR 0xE8, CHR 0xAF, CHR 0xAF] @ '': ''"

text \<open>
  The body of the \<^verbatim>\<open>try\<close> statement: the call of \<^verbatim>\<open>requests.post\<close>, then
  \<^verbatim>\<open>print(response.json())\<close>. An exception raised by any of the three calls leaves the
  body; \<^verbatim>\<open>print\<close> writes the text of the value and a line break.
\<close>

definition try_body :: "'v env \<Rightarrow> world \<Rightarrow> world \<times> (exc + unit)" where
  "try_body E w =
     (case requests_post E url headers (dumps data) 10 w of
        (w1, Inl e) \<Rightarrow> (w1, Inl e)
      | (w1, Inr response) \<Rightarrow>
          (case json_outcome E response of
             Inl e \<Rightarrow> (w1, Inl e)
           | Inr v \<Rightarrow>
               (case print_outcome E v of
                  Inl e \<Rightarrow> (w1, Inl e)
                | Inr t \<Rightarrow> (print t w1, Inr ()))))"

text \<open>
  The \<^verbatim>\<open>except\<close> clauses in their order: \<^verbatim>\<open>Timeout\<close> first, then \<^verbatim>\<open>RequestException\<close>; an
  exception that matches neither propagates and ends the process.
\<close>

definition except_clauses :: "exc \<Rightarrow> world \<Rightarrow> world \<times> exit" where
  "except_clauses e w =
     (if is_Timeout e then (print timeout_message w, Normal)
      else if is_RequestException e then (print (error_prefix @ descr e) w, Normal)
      else (w, Uncaught e))"

definition main :: "'v env \<Rightarrow> world \<times> exit" where
  "main E =
     (case try_body E world0 of
        (w, Inr _) \<Rightarrow> (w, Normal)
      | (w, Inl e) \<Rightarrow> except_clauses e w)"

subsection \<open>The library between the call and the wire\<close>

text \<open>
  What \<^verbatim>\<open>requests.post\<close> does with the one call, after \<^verbatim>\<open>Session.send\<close>,
  \<^verbatim>\<open>HTTPAdapter.send\<close> and \<^verbatim>\<open>Session.resolve_redirects\<close> of the library. A request on
  the wire is given by its method, its URL, its \<^verbatim>\<open>Content-Type\<close> field if it has one,
  and its body if it has one; its other header fields are not represented.
\<close>

record wire_request =
  wire_method :: string
  wire_url :: string
  wire_content_type :: "string option"
  wire_body :: "string option"

text \<open>
  A reply: its status, its \<^verbatim>\<open>Location\<close> header when it has one (a location that is not
  empty is given as the absolute URL the library resolves it to), and its body as text.
\<close>

record wire_reply =
  reply_status :: nat
  reply_location :: "string option"
  reply_body :: string

text \<open>
  The silences of one exchange, in the time units of the timeout: how long the socket
  stays silent before the connection stands, then before each arrival of bytes of the
  head of the reply, then before each arrival of bytes of its body. \<open>stall_descr\<close> is
  the description the library gives the exception it raises when one of them lasts too
  long.
\<close>

record timing =
  connect_wait :: nat
  head_waits :: "nat list"
  body_waits :: "nat list"
  stall_descr :: string

definition round_trip :: "timing \<Rightarrow> nat" where
  "round_trip tm = connect_wait tm + sum_list (head_waits tm) + sum_list (body_waits tm)"

text \<open>
  An exchange either fails for a reason other than a silence (a refused connection, a
  failed name lookup, a malformed reply), and the library raises the exception given, or
  it brings a reply after the silences given. The network tells how the exchange number
  \<open>k\<close> of the process goes for the request put on the wire.
\<close>

datatype exchange = Fails exc | Answers timing wire_reply

type_synonym network = "nat \<Rightarrow> wire_request \<Rightarrow> exchange"

text \<open>
  The timeout \<open>t\<close> bounds each silence by itself (\<^verbatim>\<open>TimeoutSauce(connect=t, read=t)\<close>):
  the library raises \<^verbatim>\<open>ConnectTimeout\<close> when the connection keeps it waiting for \<open>t\<close>,
  \<^verbatim>\<open>ReadTimeout\<close> when the head of the reply does, and, from the loop that reads the
  content, \<^verbatim>\<open>ConnectionError\<close> when the body does. The content is read inside the call.
\<close>

definition adapter_send :: "int \<Rightarrow> exchange \<Rightarrow> exc + wire_reply" where
  "adapter_send t x =
     (case x of
        Fails e \<Rightarrow> Inl e
      | Answers tm rp \<Rightarrow>
          if t \<le> int (connect_wait tm) then Inl (ConnectTimeout (stall_descr tm))
          else if list_ex (\<lambda>w. t \<le> int w) (head_waits tm) then Inl (ReadTimeout (stall_descr tm))
          else if list_ex (\<lambda>w. t \<le> int w) (body_waits tm)
            then Inl (ConnectionError (stall_descr tm))
          else Inr rp)"

definition REDIRECT_STATI :: "nat list" where
  "REDIRECT_STATI = [301, 302, 303, 307, 308]"

definition DEFAULT_REDIRECT_LIMIT :: nat where
  "DEFAULT_REDIRECT_LIMIT = 30"

text \<open>
  \<^verbatim>\<open>get_redirect_target\<close>: the location of a reply that has one and whose status is a
  redirect status; the loop that follows redirects runs while it is not empty.
\<close>

definition get_redirect_target :: "wire_reply \<Rightarrow> string option" where
  "get_redirect_target rp =
     (case reply_location rp of
        None \<Rightarrow> None
      | Some u \<Rightarrow> if reply_status rp \<in> set REDIRECT_STATI \<and> u \<noteq> [] then Some u else None)"

text \<open>A reply is in time when every silence of its exchange stays below the bound.\<close>

definition in_time :: "int \<Rightarrow> timing \<Rightarrow> bool" where
  "in_time t tm =
     (int (connect_wait tm) < t \<and> list_all (\<lambda>w. int w < t) (head_waits tm @ body_waits tm))"

text \<open>An exchange is redirected when its reply is in time and has a redirect target.\<close>

definition redirected :: "int \<Rightarrow> exchange \<Rightarrow> bool" where
  "redirected t x =
     (case adapter_send t x of Inl e \<Rightarrow> False | Inr rp \<Rightarrow> get_redirect_target rp \<noteq> None)"

definition rebuild_method :: "nat \<Rightarrow> string \<Rightarrow> string" where
  "rebuild_method status m =
     (if status = 303 \<and> m \<noteq> ''HEAD'' then ''GET''
      else if status = 302 \<and> m \<noteq> ''HEAD'' then ''GET''
      else if status = 301 \<and> m = ''POST'' then ''GET''
      else m)"

text \<open>
  The request that follows a redirect: to the target, with the method rebuilt; unless
  the status is 307 or 308 it loses its body and its \<^verbatim>\<open>Content-Type\<close>.
\<close>

definition redirect_request :: "wire_request \<Rightarrow> wire_reply \<Rightarrow> string \<Rightarrow> wire_request" where
  "redirect_request rq rp u =
     (if reply_status rp = 307 \<or> reply_status rp = 308
      then rq\<lparr>wire_method := rebuild_method (reply_status rp) (wire_method rq), wire_url := u\<rparr>
      else \<lparr>wire_method = rebuild_method (reply_status rp) (wire_method rq),
            wire_url = u, wire_content_type = None, wire_body = None\<rparr>)"

text \<open>
  \<^verbatim>\<open>Session.send\<close> looks for a transport adapter by the start of the URL, without regard to
  case; the session has one for \<^verbatim>\<open>https://\<close> and one for \<^verbatim>\<open>http://\<close>. Without an adapter
  nothing is sent and \<^verbatim>\<open>InvalidSchema\<close> is raised. With one, the request goes on the wire
  as exchange number \<open>k\<close>.
\<close>

definition lower_char :: "char \<Rightarrow> char" where
  "lower_char c =
     (if 65 \<le> (of_char c :: nat) \<and> (of_char c :: nat) \<le> 90 then char_of (of_char c + 32 :: nat)
      else c)"

definition has_adapter :: "string \<Rightarrow> bool" where
  "has_adapter u =
     (prefix ''https://'' (map lower_char u) \<or> prefix ''http://'' (map lower_char u))"

definition session_send ::
  "network \<Rightarrow> int \<Rightarrow> nat \<Rightarrow> wire_request \<Rightarrow> wire_request list \<times> (exc + wire_reply)"
where
  "session_send net t k rq =
     (if has_adapter (wire_url rq) then ([rq], adapter_send t (net k rq))
      else ([],
        Inl (InvalidSchema
          (''No connection adapters were found for '' @ repr_str (wire_url rq)))))"

text \<open>
  The exchanges of one call, from exchange number \<open>k\<close> on, with \<open>left\<close> redirects still
  allowed: the requests put on the wire, and the reply returned or the exception raised.
  A redirect reply met when none is left raises \<^verbatim>\<open>TooManyRedirects\<close>.
\<close>

fun exchanges ::
  "network \<Rightarrow> int \<Rightarrow> nat \<Rightarrow> nat \<Rightarrow> wire_request \<Rightarrow> wire_request list \<times> (exc + wire_reply)"
where
  "exchanges net t k 0 rq =
     (case session_send net t k rq of
        (log, Inl e) \<Rightarrow> (log, Inl e)
      | (log, Inr rp) \<Rightarrow>
          (case get_redirect_target rp of
             None \<Rightarrow> (log, Inr rp)
           | Some u \<Rightarrow> (log, Inl (TooManyRedirects ''Exceeded 30 redirects.''))))"
| "exchanges net t k (Suc left) rq =
     (case session_send net t k rq of
        (log, Inl e) \<Rightarrow> (log, Inl e)
      | (log, Inr rp) \<Rightarrow>
          (case get_redirect_target rp of
             None \<Rightarrow> (log, Inr rp)
           | Some u \<Rightarrow>
               (case exchanges net t (Suc k) left (redirect_request rq rp u) of
                  (log', out) \<Rightarrow> (log @ log', out))))"

text \<open>
  The first request of a call: the method and the URL of the call (the script's URL is
  sent as it is written), the \<^verbatim>\<open>Content-Type\<close> among the headers of the call, where names
  match without regard to case and the last entry counts, and the data as the body.
\<close>

definition content_type_of :: "(string \<times> string) list \<Rightarrow> string option" where
  "content_type_of hs = map_of (rev (map (\<lambda>(k, v). (map lower_char k, v)) hs)) ''content-type''"

definition wire_of :: "request \<Rightarrow> wire_request" where
  "wire_of rq =
     \<lparr>wire_method = req_method rq, wire_url = req_url rq,
      wire_content_type = content_type_of (req_headers rq), wire_body = Some (req_data rq)\<rparr>"

definition response_of :: "wire_reply \<Rightarrow> response" where
  "response_of rp = \<lparr>status_code = reply_status rp, content = reply_body rp\<rparr>"

definition session_request :: "network \<Rightarrow> request \<Rightarrow> wire_request list \<times> (exc + response)" where
  "session_request net rq =
     (case exchanges net (req_timeout rq) 0 DEFAULT_REDIRECT_LIMIT (wire_of rq) of
        (log, Inl e) \<Rightarrow> (log, Inl e)
      | (log, Inr rp) \<Rightarrow> (log, Inr (response_of rp)))"

text \<open>
  The environment that the library makes of a network, for a given \<^verbatim>\<open>json()\<close> and
  \<^verbatim>\<open>print\<close>, and the requests that the calls of a run put on the wire.
\<close>

definition library :: "network \<Rightarrow> (response \<Rightarrow> exc + 'v) \<Rightarrow> ('v \<Rightarrow> exc + string) \<Rightarrow> 'v env" where
  "library net js pr =
     \<lparr>post_outcome = (\<lambda>rq. snd (session_request net rq)), json_outcome = js,
      print_outcome = pr\<rparr>"

definition on_wire :: "network \<Rightarrow> request list \<Rightarrow> wire_request list" where
  "on_wire net calls = concat (map (\<lambda>rq. fst (session_request net rq)) calls)"

subsection \<open>Concrete runs\<close>

text \<open>
  The one request the script builds: the arguments it passes to \<^verbatim>\<open>requests.post\<close>, and
  the request the library first puts on the wire for it.
\<close>

definition sent_request :: request where
  "sent_request =
     \<lparr>req_method = ''POST'', req_url = url, req_headers = headers,
      req_data = dumps data, req_timeout = 10\<rparr>"

definition wire_post :: wire_request where
  "wire_post =
     \<lparr>wire_method = ''POST'',
      wire_url = ''http://162.105.151.213:2000/api/problem/getProblem'',
      wire_content_type = Some ''application/json'',
      wire_body = Some (dumps data)\<rparr>"

text \<open>
  Test doubles for the server: one that answers every request with the reply \<open>r\<close>, under
  a library whose \<^verbatim>\<open>json()\<close> raises \<open>err\<close> on undecodable content, and one for which
  \<^verbatim>\<open>requests.post\<close> raises \<open>e\<close> (its \<^verbatim>\<open>json()\<close> is never reached).
\<close>

definition mock_reply :: "response \<Rightarrow> exc \<Rightarrow> json env" where
  "mock_reply r err =
     \<lparr>post_outcome = (\<lambda>_. Inr r), json_outcome = response_json err,
      print_outcome = python_print\<rparr>"

definition mock_failure :: "exc \<Rightarrow> json env" where
  "mock_failure e =
     \<lparr>post_outcome = (\<lambda>_. Inl e),
      json_outcome = response_json (json_JSONDecodeError ''Expecting value''),
      print_outcome = python_print\<rparr>"

definition example_reply :: response where
  \<open>example_reply = \<lparr>status_code = 200, content = ''{"displayId":1002,"title":"Example"}''\<rparr>\<close>

definition not_found_reply :: response where
  \<open>not_found_reply = \<lparr>status_code = 404, content = ''{"error": "Not Found"}''\<rparr>\<close>



definition html_reply :: response where
  "html_reply = \<lparr>status_code = 200, content = ''<html>Bad Gateway</html>''\<rparr>"

definition expecting_value :: string where
  "expecting_value = ''Expecting value: line 1 column 1 (char 0)''"

definition connection_refused :: string where
  "connection_refused = ''[Errno 111] Connection refused''"

definition read_timed_out :: string where
  "read_timed_out = ''Read timed out. (read timeout=10)''"


text \<open>
  Networks. A prompt server answers after one unit for the connection and one for the
  head; a trickling server sends the same reply in pieces, four units apart, so that the
  round trip lasts thirteen; a silent server accepts the connection and then sends
  nothing for fifteen units.
\<close>

definition prompt :: timing where
  "prompt = \<lparr>connect_wait = 1, head_waits = [1], body_waits = [], stall_descr = read_timed_out\<rparr>"

definition trickle :: timing where
  "trickle =
     \<lparr>connect_wait = 1, head_waits = [4], body_waits = [4, 4], stall_descr = read_timed_out\<rparr>"

definition silent :: timing where
  "silent = \<lparr>connect_wait = 1, head_waits = [15], body_waits = [], stall_descr = read_timed_out\<rparr>"

definition reply_of :: "response \<Rightarrow> wire_reply" where
  "reply_of r = \<lparr>reply_status = status_code r, reply_location = None, reply_body = content r\<rparr>"

definition serves :: "timing \<Rightarrow> response \<Rightarrow> network" where
  "serves tm r = (\<lambda>k rq. Answers tm (reply_of r))"

text \<open>
  A server that answers the first request with status 302 and a location, and the
  request that follows with a reply of status 200; and a server that answers every
  request with status 302 and the location of the request itself.
\<close>

definition moved_reply :: wire_reply where
  \<open>moved_reply =
     \<lparr>reply_status = 302, reply_location = Some ''http://162.105.151.213:2000/login'',
      reply_body = ''{"moved": true}''\<rparr>\<close>

definition redirects_once :: network where
  \<open>redirects_once =
     (\<lambda>k rq. if k = 0 then Answers prompt moved_reply
              else Answers prompt
                \<lparr>reply_status = 200, reply_location = None, reply_body = ''{"ok": true}''\<rparr>)\<close>

definition redirects_always :: network where
  "redirects_always =
     (\<lambda>k rq. Answers prompt
        \<lparr>reply_status = 302, reply_location = Some (wire_url rq), reply_body = []\<rparr>)"

text \<open>The installed library and interpreter over a network, for the runs evaluated here.\<close>

definition installation :: "network \<Rightarrow> json env" where
  "installation net =
     library net (response_json (requests_JSONDecodeError expecting_value)) python_print"


section \<open>Properties of a run\<close>

subsection \<open>The ways through the \<^verbatim>\<open>try\<close> statement\<close>

lemma main_post_raises:
  "post_outcome E sent_request = Inl e \<Longrightarrow>
   main E = except_clauses e \<lparr>sent = [sent_request], stdout = []\<rparr>"
  by (simp add: main_def try_body_def requests_post_def world0_def sent_request_def)

lemma main_json_raises:
  "post_outcome E sent_request = Inr r \<Longrightarrow> json_outcome E r = Inl e \<Longrightarrow>
   main E = except_clauses e \<lparr>sent = [sent_request], stdout = []\<rparr>"
  by (simp add: main_def try_body_def requests_post_def world0_def sent_request_def)

lemma main_print_raises:
  "post_outcome E sent_request = Inr r \<Longrightarrow> json_outcome E r = Inr v \<Longrightarrow>
   print_outcome E v = Inl e \<Longrightarrow>
   main E = except_clauses e \<lparr>sent = [sent_request], stdout = []\<rparr>"
  by (simp add: main_def try_body_def requests_post_def world0_def sent_request_def)

lemma main_prints:
  "post_outcome E sent_request = Inr r \<Longrightarrow> json_outcome E r = Inr v \<Longrightarrow>
   print_outcome E v = Inr t \<Longrightarrow>
   main E = (\<lparr>sent = [sent_request], stdout = t @ [newline]\<rparr>, Normal)"
  by (simp add: main_def try_body_def requests_post_def world0_def sent_request_def print_def)


lemma sent_except_clauses: "sent (fst (except_clauses e w)) = sent w"
  by (simp add: except_clauses_def print_def)

lemma sent_main: "sent (fst (main E)) = [sent_request]"
proof (cases "post_outcome E sent_request")
  case (Inl e)
  then show ?thesis
    by (simp add: main_post_raises sent_except_clauses)
next
  case (Inr r)
  show ?thesis
  proof (cases "json_outcome E r")
    case (Inl e)
    with Inr show ?thesis
      by (simp add: main_json_raises sent_except_clauses)
  next
    case decoded: (Inr v)
    show ?thesis
    proof (cases "print_outcome E v")
      case (Inl e)
      with Inr decoded show ?thesis
        by (simp add: main_print_raises sent_except_clauses)
    next
      case written: (Inr t)
      with Inr decoded show ?thesis
        by (simp add: main_prints)
    qed
  qed
qed

lemma response_json_failed: "loads (content r) = None \<Longrightarrow> response_json err r = Inl err"
  by (simp add: response_json_def)

lemma response_json_status: "response_json err (r\<lparr>status_code := n\<rparr>) = response_json err r"
  by (simp add: response_json_def)

subsection \<open>The exchanges of the call\<close>

lemma in_time_iff:
  "in_time t tm =
     (\<not> t \<le> int (connect_wait tm) \<and> \<not> list_ex (\<lambda>w. t \<le> int w) (head_waits tm)
      \<and> \<not> list_ex (\<lambda>w. t \<le> int w) (body_waits tm))"
  by (auto simp add: in_time_def list_all_iff list_ex_iff not_le ball_Un)

lemma adapter_send_in_time: "in_time t tm \<Longrightarrow> adapter_send t (Answers tm rp) = Inr rp"
  by (simp add: adapter_send_def in_time_iff)

lemma adapter_send_reply:
  "(adapter_send t (Answers tm rp) = Inr rp') = (in_time t tm \<and> rp' = rp)"
  by (auto simp add: adapter_send_def in_time_iff)

lemma adapter_send_connect_stall:
  "t \<le> int (connect_wait tm) \<Longrightarrow>
   adapter_send t (Answers tm rp) = Inl (ConnectTimeout (stall_descr tm))"
  by (simp add: adapter_send_def)

lemma adapter_send_head_stall:
  "\<not> t \<le> int (connect_wait tm) \<Longrightarrow> list_ex (\<lambda>w. t \<le> int w) (head_waits tm) \<Longrightarrow>
   adapter_send t (Answers tm rp) = Inl (ReadTimeout (stall_descr tm))"
  by (simp add: adapter_send_def)

lemma exchanges_stop:
  "has_adapter (wire_url rq) \<Longrightarrow> adapter_send t (net k rq) = Inl e \<Longrightarrow>
   exchanges net t k left rq = ([rq], Inl e)"
  by (cases left) (simp_all add: session_send_def)

lemma exchanges_return:
  "has_adapter (wire_url rq) \<Longrightarrow> adapter_send t (net k rq) = Inr rp \<Longrightarrow>
   get_redirect_target rp = None \<Longrightarrow>
   exchanges net t k left rq = ([rq], Inr rp)"
  by (cases left) (simp_all add: session_send_def)

lemma exchanges_follow:
  "has_adapter (wire_url rq) \<Longrightarrow> adapter_send t (net k rq) = Inr rp \<Longrightarrow>
   get_redirect_target rp = Some u \<Longrightarrow>
   fst (exchanges net t k (Suc left) rq) =
     rq # fst (exchanges net t (Suc k) left (redirect_request rq rp u))"
  by (simp add: session_send_def split: prod.split)

lemma exchanges_not_redirected:
  "has_adapter (wire_url rq) \<Longrightarrow> \<not> redirected t (net k rq) \<Longrightarrow>
   fst (exchanges net t k left rq) = [rq]"
  by (cases left)
    (auto simp add: redirected_def session_send_def split: sum.splits option.splits)

lemma exchanges_first:
  "has_adapter (wire_url rq) \<Longrightarrow> take 1 (fst (exchanges net t k left rq)) = [rq]"
  by (cases left)
    (auto simp add: session_send_def split: sum.splits option.splits prod.splits)

lemma session_send_length: "length (fst (session_send net t k rq)) \<le> 1"
  by (simp add: session_send_def)

lemma exchanges_length: "length (fst (exchanges net t k left rq)) \<le> Suc left"
proof (induction left arbitrary: k rq)
  case 0
  from session_send_length [of net t k rq] show ?case
    by (auto split: sum.splits option.splits prod.splits)
next
  case (Suc left)
  obtain log out where sent: "session_send net t k rq = (log, out)"
    by (cases "session_send net t k rq")
  with session_send_length [of net t k rq] have short: "length log \<le> 1"
    by simp
  show ?case
  proof (cases out)
    case (Inl e)
    with sent short show ?thesis
      by simp
  next
    case (Inr rp)
    show ?thesis
    proof (cases "get_redirect_target rp")
      case None
      with sent Inr short show ?thesis
        by simp
    next
      case (Some u)
      obtain log' out' where
        rest: "exchanges net t (Suc k) left (redirect_request rq rp u) = (log', out')"
        by (cases "exchanges net t (Suc k) left (redirect_request rq rp u)")
      with Suc.IH [of "Suc k" "redirect_request rq rp u"] have "length log' \<le> Suc left"
        by simp
      with sent Inr Some short rest show ?thesis
        by simp
    qed
  qed
qed

lemma has_adapter_wire_post: "has_adapter (wire_url wire_post)"
  by code_simp

lemma wire_of_sent_request: "wire_of sent_request = wire_post"
  by code_simp

lemma req_timeout_sent_request: "req_timeout sent_request = 10"
  by (simp add: sent_request_def)

lemma session_request_sent:
  "session_request net sent_request =
     (case exchanges net 10 0 30 wire_post of
        (log, Inl e) \<Rightarrow> (log, Inl e)
      | (log, Inr rp) \<Rightarrow> (log, Inr (response_of rp)))"
  by (simp add: session_request_def wire_of_sent_request req_timeout_sent_request
      DEFAULT_REDIRECT_LIMIT_def)

lemma on_wire_run:
  "on_wire net (sent (fst (main (library net js pr)))) = fst (exchanges net 10 0 30 wire_post)"
  by (simp add: sent_main on_wire_def session_request_sent split: prod.split sum.split)

lemma post_outcome_library:
  "post_outcome (library net js pr) sent_request =
     (case snd (exchanges net 10 0 30 wire_post) of
        Inl e \<Rightarrow> Inl e
      | Inr rp \<Rightarrow> Inr (response_of rp))"
  by (simp add: library_def session_request_sent split: prod.split sum.split)

lemma post_outcome_library_stop:
  "adapter_send 10 (net 0 wire_post) = Inl e \<Longrightarrow>
   post_outcome (library net js pr) sent_request = Inl e"
  by (simp add: post_outcome_library exchanges_stop has_adapter_wire_post)

lemma post_outcome_library_return:
  "adapter_send 10 (net 0 wire_post) = Inr rp \<Longrightarrow> get_redirect_target rp = None \<Longrightarrow>
   post_outcome (library net js pr) sent_request = Inr (response_of rp)"
  by (simp add: post_outcome_library exchanges_return has_adapter_wire_post)

subsection \<open>Evaluations\<close>

lemma loads_dumps_data: "loads (dumps data) = Some data"
  by code_simp

lemma loads_html_reply: "loads (content html_reply) = None"
  by code_simp





lemma run_not_found_reply:
  "main (installation (serves prompt not_found_reply)) =
     (\<lparr>sent = [sent_request], stdout = ''{'error': 'Not Found'}'' @ [newline]\<rparr>, Normal)"
  by code_simp

lemma wire_redirects_once:
  "on_wire redirects_once (sent (fst (main (installation redirects_once)))) =
     [wire_post,
      \<lparr>wire_method = ''GET'', wire_url = ''http://162.105.151.213:2000/login'',
       wire_content_type = None, wire_body = None\<rparr>]"
  by code_simp

subsection \<open>The request\<close>

text \<open>
  C1. On every run, the body of the request that goes out, decoded as JSON, is the
  payload of ten keys: \<^verbatim>\<open>displayId\<close> is the integer 1002, the two locale keys are the
  string \<^verbatim>\<open>zh_CN\<close>, the seven others are \<^verbatim>\<open>true\<close>; no key is added and none is missing.
\<close>

theorem request_body_is_payload:
  "map (loads \<circ> req_data) (sent (fst (main E))) =
     [Some (JObj
        [(''displayId'', JInt 1002),
         (''discussionCount'', JBool True),
         (''judgeInfo'', JBool True),
         (''judgeInfoToBePreprocessed'', JBool True),
         (''lastSubmissionAndLastAcceptedSubmission'', JBool True),
         (''localizedContentsOfLocale'', JStr ''zh_CN''),
         (''permissionOfCurrentUser'', JBool True),
         (''samples'', JBool True),
         (''statistics'', JBool True),
         (''tagsOfLocale'', JStr ''zh_CN'')])]"
proof -
  have "map (loads \<circ> req_data) (sent (fst (main E))) = [loads (dumps data)]"
    by (simp add: sent_main sent_request_def)
  also have "\<dots> = [Some data]"
    by (simp add: loads_dumps_data)
  finally show ?thesis
    by (simp add: data_def)
qed

text \<open>
  C5 (as amended). The one call of a run is a POST to the fixed URL, which ends in
  \<^verbatim>\<open>/api/problem/getProblem\<close>, with the header \<^verbatim>\<open>Content-Type: application/json\<close>, and the
  first request on the wire is that POST with the payload as its body. It is the only
  request on the wire unless the first exchange is redirected; then the library goes on
  with the request to the redirect target.
\<close>

theorem request_is_json_post:
  "map (\<lambda>rq. (req_method rq, req_url rq, map_of (req_headers rq) ''Content-Type''))
     (sent (fst (main E))) =
     [(''POST'', ''http://162.105.151.213:2000/api/problem/getProblem'',
       Some ''application/json'')]
   \<and> suffix ''/api/problem/getProblem'' url
   \<and> take 1 (on_wire net (sent (fst (main (library net js pr))))) =
       [\<lparr>wire_method = ''POST'',
         wire_url = ''http://162.105.151.213:2000/api/problem/getProblem'',
         wire_content_type = Some ''application/json'',
         wire_body = Some (dumps data)\<rparr>]
   \<and> (\<not> redirected 10 (net 0 wire_post) \<longrightarrow>
        on_wire net (sent (fst (main (library net js pr)))) = [wire_post])
   \<and> (adapter_send 10 (net 0 wire_post) = Inr rp \<longrightarrow> get_redirect_target rp = Some u \<longrightarrow>
        has_adapter u \<longrightarrow>
        take 2 (on_wire net (sent (fst (main (library net js pr))))) =
          [wire_post, redirect_request wire_post rp u])"
proof (intro conjI impI)
  show "map (\<lambda>rq. (req_method rq, req_url rq, map_of (req_headers rq) ''Content-Type''))
      (sent (fst (main E))) =
      [(''POST'', ''http://162.105.151.213:2000/api/problem/getProblem'',
        Some ''application/json'')]"
    by (simp add: sent_main sent_request_def url_def headers_def)
  show "suffix ''/api/problem/getProblem'' url"
    by (simp add: url_def suffix_def)
  have "take 1 (on_wire net (sent (fst (main (library net js pr))))) = [wire_post]"
    using exchanges_first [OF has_adapter_wire_post, of net 10 0 30]
    by (simp only: on_wire_run)
  then show "take 1 (on_wire net (sent (fst (main (library net js pr))))) =
      [\<lparr>wire_method = ''POST'',
        wire_url = ''http://162.105.151.213:2000/api/problem/getProblem'',
        wire_content_type = Some ''application/json'',
        wire_body = Some (dumps data)\<rparr>]"
    by (simp only: wire_post_def)
next
  assume "\<not> redirected 10 (net 0 wire_post)"
  then show "on_wire net (sent (fst (main (library net js pr)))) = [wire_post]"
    by (simp add: on_wire_run exchanges_not_redirected has_adapter_wire_post)
next
  assume reply: "adapter_send 10 (net 0 wire_post) = Inr rp"
    and target: "get_redirect_target rp = Some u"
    and adapter: "has_adapter u"
  have "fst (exchanges net 10 0 30 wire_post) =
      wire_post # fst (exchanges net 10 (Suc 0) 29 (redirect_request wire_post rp u))"
    using exchanges_follow [where net = net and k = 0 and rq = wire_post and left = 29,
        OF has_adapter_wire_post reply target]
    by simp
  moreover from adapter have "has_adapter (wire_url (redirect_request wire_post rp u))"
    by (simp add: redirect_request_def)
  then have "take 1 (fst (exchanges net 10 (Suc 0) 29 (redirect_request wire_post rp u))) =
      [redirect_request wire_post rp u]"
    by (rule exchanges_first)
  ultimately show "take 2 (on_wire net (sent (fst (main (library net js pr))))) =
      [wire_post, redirect_request wire_post rp u]"
    by (simp add: on_wire_run take_Suc_Cons numeral_2_eq_2)
qed

theorem request_is_json_post_witness:
  "\<not> redirected 10 (serves prompt example_reply 0 wire_post)
   \<and> on_wire (serves prompt example_reply)
       (sent (fst (main (installation (serves prompt example_reply))))) = [wire_post]
   \<and> adapter_send 10 (redirects_once 0 wire_post) = Inr moved_reply
   \<and> get_redirect_target moved_reply = Some ''http://162.105.151.213:2000/login''
   \<and> has_adapter ''http://162.105.151.213:2000/login''
   \<and> take 2 (on_wire redirects_once (sent (fst (main (installation redirects_once))))) =
       [wire_post, redirect_request wire_post moved_reply ''http://162.105.151.213:2000/login'']"
proof -
  have first: "\<not> redirected 10 (serves prompt example_reply 0 wire_post)"
    by code_simp
  have reply: "adapter_send 10 (redirects_once 0 wire_post) = Inr moved_reply"
    by code_simp
  have target: "get_redirect_target moved_reply = Some ''http://162.105.151.213:2000/login''"
    by code_simp
  have adapter: "has_adapter ''http://162.105.151.213:2000/login''"
    by code_simp
  note once = request_is_json_post
    [where net = "serves prompt example_reply"
       and js = "response_json (requests_JSONDecodeError expecting_value)"
       and pr = python_print]
  note twice = request_is_json_post
    [where net = redirects_once
       and js = "response_json (requests_JSONDecodeError expecting_value)"
       and pr = python_print and rp = moved_reply
       and u = "''http://162.105.151.213:2000/login''"]
  from once first
  have "on_wire (serves prompt example_reply)
      (sent (fst (main (installation (serves prompt example_reply))))) = [wire_post]"
    unfolding installation_def by blast
  moreover from twice reply target adapter
  have "take 2 (on_wire redirects_once (sent (fst (main (installation redirects_once))))) =
      [wire_post, redirect_request wire_post moved_reply ''http://162.105.151.213:2000/login'']"
    unfolding installation_def by blast
  ultimately show ?thesis
    using first reply target adapter by (intro conjI)
qed

text \<open>
  C5 as stated fails: when the server answers the POST with status 302 and a location, the
  process sends a second request, a GET to that location without the payload and without
  its \<^verbatim>\<open>Content-Type\<close>.
\<close>

theorem every_request_is_post_counterexample:
  "on_wire redirects_once (sent (fst (main (installation redirects_once)))) =
     [\<lparr>wire_method = ''POST'',
       wire_url = ''http://162.105.151.213:2000/api/problem/getProblem'',
       wire_content_type = Some ''application/json'',
       wire_body = Some (dumps data)\<rparr>,
      \<lparr>wire_method = ''GET'', wire_url = ''http://162.105.151.213:2000/login'',
       wire_content_type = None, wire_body = None\<rparr>]"
  using wire_redirects_once by (simp only: wire_post_def)

text \<open>
  C6 (as amended). The timeout passed with the one call of a run is 10. The library
  holds each silence of an exchange against that bound by itself, not the round trip as
  a whole: a reply that is no redirect is returned by the call exactly when the wait for
  the connection and every wait for bytes of the reply stay below 10.
\<close>

theorem request_timeout_is_ten:
  "map req_timeout (sent (fst (main E))) = [10]
   \<and> (net 0 wire_post = Answers tm rp \<longrightarrow> get_redirect_target rp = None \<longrightarrow>
        (post_outcome (library net js pr) sent_request = Inr (response_of rp)) = in_time 10 tm)"
proof (intro conjI impI)
  show "map req_timeout (sent (fst (main E))) = [10]"
    by (simp add: sent_main sent_request_def)
next
  assume answers: "net 0 wire_post = Answers tm rp" and final: "get_redirect_target rp = None"
  show "(post_outcome (library net js pr) sent_request = Inr (response_of rp)) = in_time 10 tm"
  proof (cases "in_time 10 tm")
    case True
    with answers have "adapter_send 10 (net 0 wire_post) = Inr rp"
      by (simp add: adapter_send_in_time)
    with final True show ?thesis
      by (simp add: post_outcome_library_return)
  next
    case False
    with answers obtain e where "adapter_send 10 (net 0 wire_post) = Inl e"
      by (cases "adapter_send 10 (net 0 wire_post)") (simp_all add: adapter_send_reply)
    with False show ?thesis
      by (simp add: post_outcome_library_stop)
  qed
qed

theorem request_timeout_is_ten_witness:
  "serves trickle example_reply 0 wire_post = Answers trickle (reply_of example_reply)
   \<and> get_redirect_target (reply_of example_reply) = None
   \<and> in_time 10 trickle
   \<and> post_outcome (installation (serves trickle example_reply)) sent_request =
       Inr (response_of (reply_of example_reply))"
proof -
  have answers: "serves trickle example_reply 0 wire_post = Answers trickle (reply_of example_reply)"
    by (simp add: serves_def)
  have final: "get_redirect_target (reply_of example_reply) = None"
    by (simp add: get_redirect_target_def reply_of_def)
  have quick: "in_time 10 trickle"
    by (simp add: in_time_def trickle_def)
  from request_timeout_is_ten
    [where net = "serves trickle example_reply" and tm = trickle
       and rp = "reply_of example_reply"
       and js = "response_json (requests_JSONDecodeError expecting_value)"
       and pr = python_print]
    answers final quick
  have "post_outcome (installation (serves trickle example_reply)) sent_request =
      Inr (response_of (reply_of example_reply))"
    unfolding installation_def by blast
  with answers final quick show ?thesis
    by (intro conjI)
qed

text \<open>
  C6 as stated fails: the bound of 10 does not hold for the round trip. From the
  trickling server the call returns the reply after a round trip of 13.
\<close>

theorem timeout_bounds_round_trip_counterexample:
  "req_timeout sent_request = 10
   \<and> round_trip trickle = 13
   \<and> serves trickle example_reply 0 wire_post = Answers trickle (reply_of example_reply)
   \<and> post_outcome (installation (serves trickle example_reply)) sent_request = Inr example_reply"
  by code_simp

text \<open>
  C8 (as amended). Whatever the environment answers (a reply, a timeout, another
  failure), a run calls \<^verbatim>\<open>requests.post\<close> exactly once: the script has no loop and no
  retry. The call puts one request on the wire, and more only when exchanges are
  redirected: the library follows at most 30 redirects, so there are at most 31 requests.
\<close>

theorem exactly_one_request:
  "length (sent (fst (main E))) = 1
   \<and> 1 \<le> length (on_wire net (sent (fst (main (library net js pr)))))
   \<and> length (on_wire net (sent (fst (main (library net js pr))))) \<le> 31
   \<and> (\<not> redirected 10 (net 0 wire_post) \<longrightarrow>
        length (on_wire net (sent (fst (main (library net js pr))))) = 1)"
proof (intro conjI impI)
  show "length (sent (fst (main E))) = 1"
    by (simp add: sent_main)
  have "length (take 1 (fst (exchanges net 10 0 30 wire_post))) = 1"
    using exchanges_first [OF has_adapter_wire_post, of net 10 0 30]
    by simp
  then show "1 \<le> length (on_wire net (sent (fst (main (library net js pr)))))"
    by (simp add: on_wire_run)
  show "length (on_wire net (sent (fst (main (library net js pr))))) \<le> 31"
    using exchanges_length [of net 10 0 30 wire_post] by (simp add: on_wire_run)
next
  assume "\<not> redirected 10 (net 0 wire_post)"
  then show "length (on_wire net (sent (fst (main (library net js pr))))) = 1"
    by (simp add: on_wire_run exchanges_not_redirected has_adapter_wire_post)
qed

theorem exactly_one_request_witness:
  "\<not> redirected 10 (serves silent example_reply 0 wire_post)
   \<and> length (sent (fst (main (installation (serves silent example_reply))))) = 1
   \<and> length (on_wire (serves silent example_reply)
       (sent (fst (main (installation (serves silent example_reply)))))) = 1"
proof -
  have first: "\<not> redirected 10 (serves silent example_reply 0 wire_post)"
    by code_simp
  from exactly_one_request
    [where E = "installation (serves silent example_reply)"
       and net = "serves silent example_reply"
       and js = "response_json (requests_JSONDecodeError expecting_value)"
       and pr = python_print]
    first
  show ?thesis
    unfolding installation_def by blast
qed

text \<open>
  C8 as stated fails: when the server answers the POST with status 302 and a location, the
  one call sends two requests.
\<close>

theorem never_a_second_request_counterexample:
  "length (sent (fst (main (installation redirects_once)))) = 1
   \<and> length (on_wire redirects_once (sent (fst (main (installation redirects_once))))) = 2"
  by code_simp

subsection \<open>A reply\<close>

lemma main_of_reply:
  "post_outcome E sent_request = Inr r \<Longrightarrow>
   main E =
     (case json_outcome E r of
        Inl e \<Rightarrow> except_clauses e \<lparr>sent = [sent_request], stdout = []\<rparr>
      | Inr v \<Rightarrow>
          (case print_outcome E v of
             Inl e \<Rightarrow> except_clauses e \<lparr>sent = [sent_request], stdout = []\<rparr>
           | Inr t \<Rightarrow> (\<lparr>sent = [sent_request], stdout = t @ [newline]\<rparr>, Normal)))"
  by (simp add: main_json_raises main_print_raises main_prints split: sum.split)



text \<open>
  C10 (as amended). A reply that the call returns is not treated as a failure on account
  of its status code. The script never looks at the status: the run for a reply is the run
  for the same reply under any other status code. The library returns every reply that is
  in time and is no redirect, whatever its status, 404 and 500 included; a reply with
  status 404 and JSON content is decoded and printed. A redirect reply is followed
  instead of being returned.
\<close>

theorem status_code_is_ignored:
  "(post_outcome E sent_request = Inr r \<longrightarrow>
      json_outcome E (r\<lparr>status_code := c\<rparr>) = json_outcome E r \<longrightarrow>
      main (E\<lparr>post_outcome := \<lambda>_. Inr (r\<lparr>status_code := c\<rparr>)\<rparr>) = main E)
   \<and> (net 0 wire_post = Answers tm rp \<longrightarrow> in_time 10 tm \<longrightarrow>
        get_redirect_target rp = None \<longrightarrow>
        post_outcome (library net js pr) sent_request =
          Inr \<lparr>status_code = reply_status rp, content = reply_body rp\<rparr>)
   \<and> main (installation (serves prompt not_found_reply)) =
       (\<lparr>sent = [sent_request], stdout = ''{'error': 'Not Found'}'' @ [newline]\<rparr>, Normal)"
proof (intro conjI impI)
  assume post: "post_outcome E sent_request = Inr r"
    and same: "json_outcome E (r\<lparr>status_code := c\<rparr>) = json_outcome E r"
  let ?E' = "E\<lparr>post_outcome := \<lambda>_. Inr (r\<lparr>status_code := c\<rparr>)\<rparr>"
  have "post_outcome ?E' sent_request = Inr (r\<lparr>status_code := c\<rparr>)"
    by simp
  then have "main ?E' =
      (case json_outcome ?E' (r\<lparr>status_code := c\<rparr>) of
         Inl e \<Rightarrow> except_clauses e \<lparr>sent = [sent_request], stdout = []\<rparr>
       | Inr v \<Rightarrow>
           (case print_outcome ?E' v of
              Inl e \<Rightarrow> except_clauses e \<lparr>sent = [sent_request], stdout = []\<rparr>
            | Inr t \<Rightarrow> (\<lparr>sent = [sent_request], stdout = t @ [newline]\<rparr>, Normal)))"
    by (rule main_of_reply)
  with same main_of_reply [OF post] show "main ?E' = main E"
    by (simp split: sum.split)
next
  assume "net 0 wire_post = Answers tm rp" "in_time 10 tm" "get_redirect_target rp = None"
  then show "post_outcome (library net js pr) sent_request =
      Inr \<lparr>status_code = reply_status rp, content = reply_body rp\<rparr>"
    by (simp add: post_outcome_library_return adapter_send_in_time response_of_def)
next
  show "main (installation (serves prompt not_found_reply)) =
      (\<lparr>sent = [sent_request], stdout = ''{'error': 'Not Found'}'' @ [newline]\<rparr>, Normal)"
    by (rule run_not_found_reply)
qed

theorem status_code_is_ignored_witness:
  "post_outcome (mock_reply not_found_reply (json_JSONDecodeError expecting_value)) sent_request
     = Inr not_found_reply
   \<and> status_code not_found_reply = 404
   \<and> json_outcome (mock_reply not_found_reply (json_JSONDecodeError expecting_value))
       (not_found_reply\<lparr>status_code := 200\<rparr>)
     = json_outcome (mock_reply not_found_reply (json_JSONDecodeError expecting_value))
       not_found_reply
   \<and> main (mock_reply (not_found_reply\<lparr>status_code := 200\<rparr>)
       (json_JSONDecodeError expecting_value))
     = main (mock_reply not_found_reply (json_JSONDecodeError expecting_value))
   \<and> serves prompt not_found_reply 0 wire_post = Answers prompt (reply_of not_found_reply)
   \<and> in_time 10 prompt
   \<and> get_redirect_target (reply_of not_found_reply) = None
   \<and> post_outcome (installation (serves prompt not_found_reply)) sent_request =
       Inr \<lparr>status_code = 404, content = content not_found_reply\<rparr>"
proof -
  let ?err = "json_JSONDecodeError expecting_value"
  let ?E = "mock_reply not_found_reply ?err"
  have post: "post_outcome ?E sent_request = Inr not_found_reply"
    by (simp add: mock_reply_def)
  have code: "status_code not_found_reply = 404"
    by (simp add: not_found_reply_def)
  have same: "json_outcome ?E (not_found_reply\<lparr>status_code := 200\<rparr>) =
      json_outcome ?E not_found_reply"
    by (simp add: mock_reply_def response_json_status)
  have double: "?E\<lparr>post_outcome := \<lambda>_. Inr (not_found_reply\<lparr>status_code := 200\<rparr>)\<rparr> =
      mock_reply (not_found_reply\<lparr>status_code := 200\<rparr>) ?err"
    by (simp add: mock_reply_def)
  have answers: "serves prompt not_found_reply 0 wire_post =
      Answers prompt (reply_of not_found_reply)"
    by (simp add: serves_def)
  have quick: "in_time 10 prompt"
    by (simp add: in_time_def prompt_def)
  have final: "get_redirect_target (reply_of not_found_reply) = None"
    by (simp add: get_redirect_target_def reply_of_def)
  note script = status_code_is_ignored [where E = ?E and r = not_found_reply and c = 200]
  note wire = status_code_is_ignored
    [where net = "serves prompt not_found_reply" and tm = prompt
       and rp = "reply_of not_found_reply"
       and js = "response_json (requests_JSONDecodeError expecting_value)"
       and pr = python_print]
  from script post same
  have "main (?E\<lparr>post_outcome := \<lambda>_. Inr (not_found_reply\<lparr>status_code := 200\<rparr>)\<rparr>) = main ?E"
    by blast
  then have one: "main (mock_reply (not_found_reply\<lparr>status_code := 200\<rparr>) ?err) = main ?E"
    by (simp only: double)
  from wire answers quick final
  have "post_outcome (installation (serves prompt not_found_reply)) sent_request =
      Inr \<lparr>status_code = reply_status (reply_of not_found_reply),
           content = reply_body (reply_of not_found_reply)\<rparr>"
    unfolding installation_def by blast
  then have two: "post_outcome (installation (serves prompt not_found_reply)) sent_request =
      Inr \<lparr>status_code = 404, content = content not_found_reply\<rparr>"
    by (simp add: reply_of_def code)
  from post code same one answers quick final two show ?thesis
    by (intro conjI)
qed

text \<open>
  C10 as stated fails: when every reply arrives in time with status 302 and a location,
  no reply is decoded and printed; after 30 redirects the run ends in the request-error
  message.
\<close>

theorem any_reply_is_printed_counterexample:
  "redirects_always 0 wire_post =
     Answers prompt
       \<lparr>reply_status = 302,
        reply_location = Some ''http://162.105.151.213:2000/api/problem/getProblem'',
        reply_body = []\<rparr>
   \<and> in_time 10 prompt
   \<and> main (installation redirects_always) =
       (\<lparr>sent = [sent_request],
         stdout = error_prefix @ ''Exceeded 30 redirects.'' @ [newline]\<rparr>, Normal)"
  by code_simp

subsection \<open>A failure\<close>

text \<open>
  C3 (as amended). When the call raises an instance of \<^verbatim>\<open>Timeout\<close>, the run prints the
  fixed timeout message and nothing else, has sent the one request only, and ends
  normally. The library raises one when the connection, or the head of the reply, keeps
  it waiting for the bound of 10, not when the round trip as a whole lasts longer.
\<close>

theorem timeout_prints_fixed_message:
  "(post_outcome E sent_request = Inl e \<longrightarrow> is_Timeout e \<longrightarrow>
      main E = (\<lparr>sent = [sent_request], stdout = timeout_message @ [newline]\<rparr>, Normal))
   \<and> (net 0 wire_post = Answers tm rp \<longrightarrow>
        10 \<le> connect_wait tm \<or> list_ex (\<lambda>w. 10 \<le> w) (head_waits tm) \<longrightarrow>
        main (library net js pr) =
          (\<lparr>sent = [sent_request], stdout = timeout_message @ [newline]\<rparr>, Normal))"
proof (intro conjI impI)
  assume "post_outcome E sent_request = Inl e" "is_Timeout e"
  then show "main E = (\<lparr>sent = [sent_request], stdout = timeout_message @ [newline]\<rparr>, Normal)"
    by (simp add: main_post_raises except_clauses_def print_def)
next
  assume answers: "net 0 wire_post = Answers tm rp"
    and stall: "10 \<le> connect_wait tm \<or> list_ex (\<lambda>w. 10 \<le> w) (head_waits tm)"
  have "\<exists>e. adapter_send 10 (net 0 wire_post) = Inl e \<and> is_Timeout e"
  proof (cases "10 \<le> connect_wait tm")
    case True
    then have "adapter_send 10 (Answers tm rp) = Inl (ConnectTimeout (stall_descr tm))"
      by (simp add: adapter_send_connect_stall)
    with answers show ?thesis
      by (simp add: ConnectTimeout_def)
  next
    case False
    with stall have "list_ex (\<lambda>w. (10::int) \<le> int w) (head_waits tm)"
      by (simp add: list_ex_iff)
    with False have "adapter_send 10 (Answers tm rp) = Inl (ReadTimeout (stall_descr tm))"
      by (simp add: adapter_send_head_stall)
    with answers show ?thesis
      by (simp add: ReadTimeout_def)
  qed
  then obtain e where "post_outcome (library net js pr) sent_request = Inl e" "is_Timeout e"
    by (auto simp add: post_outcome_library_stop)
  then show "main (library net js pr) =
      (\<lparr>sent = [sent_request], stdout = timeout_message @ [newline]\<rparr>, Normal)"
    by (simp add: main_post_raises except_clauses_def print_def)
qed

theorem timeout_prints_fixed_message_witness:
  "post_outcome (mock_failure (ReadTimeout read_timed_out)) sent_request
     = Inl (ReadTimeout read_timed_out)
   \<and> is_Timeout (ReadTimeout read_timed_out)
   \<and> main (mock_failure (ReadTimeout read_timed_out)) =
       (\<lparr>sent = [sent_request], stdout = timeout_message @ [newline]\<rparr>, Normal)
   \<and> serves silent example_reply 0 wire_post = Answers silent (reply_of example_reply)
   \<and> (10 \<le> connect_wait silent \<or> list_ex (\<lambda>w. 10 \<le> w) (head_waits silent))
   \<and> main (installation (serves silent example_reply)) =
       (\<lparr>sent = [sent_request], stdout = timeout_message @ [newline]\<rparr>, Normal)"
proof -
  let ?e = "ReadTimeout read_timed_out"
  have raised: "post_outcome (mock_failure ?e) sent_request = Inl ?e"
    by (simp add: mock_failure_def)
  have timeout: "is_Timeout ?e"
    by (simp add: ReadTimeout_def)
  have answers: "serves silent example_reply 0 wire_post = Answers silent (reply_of example_reply)"
    by (simp add: serves_def)
  have stall: "10 \<le> connect_wait silent \<or> list_ex (\<lambda>w. 10 \<le> w) (head_waits silent)"
    by (simp add: silent_def)
  note by_class = timeout_prints_fixed_message [where E = "mock_failure ?e" and e = ?e]
  note by_wait = timeout_prints_fixed_message
    [where net = "serves silent example_reply" and tm = silent
       and rp = "reply_of example_reply"
       and js = "response_json (requests_JSONDecodeError expecting_value)"
       and pr = python_print]
  from by_class raised timeout
  have one: "main (mock_failure ?e) =
      (\<lparr>sent = [sent_request], stdout = timeout_message @ [newline]\<rparr>, Normal)"
    by blast
  from by_wait answers stall
  have two: "main (installation (serves silent example_reply)) =
      (\<lparr>sent = [sent_request], stdout = timeout_message @ [newline]\<rparr>, Normal)"
    unfolding installation_def by blast
  from raised timeout one answers stall two show ?thesis
    by (intro conjI)
qed

text \<open>
  C3 as stated fails: a round trip longer than the bound is no timeout. From the
  trickling server, whose round trip lasts 13, the run prints the reply and not the
  timeout message.
\<close>

theorem slow_round_trip_times_out_counterexample:
  "req_timeout sent_request = 10
   \<and> round_trip trickle = 13
   \<and> serves trickle example_reply 0 wire_post = Answers trickle (reply_of example_reply)
   \<and> main (installation (serves trickle example_reply)) =
       (\<lparr>sent = [sent_request],
         stdout = ''{'displayId': 1002, 'title': 'Example'}'' @ [newline]\<rparr>, Normal)
   \<and> stdout (fst (main (installation (serves trickle example_reply)))) \<noteq>
       timeout_message @ [newline]"
  by code_simp

text \<open>
  C4. When the call fails with a request exception that is not a timeout (a refused
  connection, a failed name lookup, a malformed reply), the run prints one line that
  holds the description of the exception after a fixed prefix, has sent the one request
  only, and ends normally.
\<close>

theorem request_error_prints_description:
  "post_outcome E sent_request = Inl e \<Longrightarrow>
   \<not> is_Timeout e \<Longrightarrow>
   is_RequestException e \<Longrightarrow>
   main E =
     (\<lparr>sent = [sent_request], stdout = error_prefix @ descr e @ [newline]\<rparr>, Normal)"
  by (simp add: main_post_raises except_clauses_def print_def)

theorem request_error_prints_description_witness:
  "post_outcome (mock_failure (ConnectionError connection_refused)) sent_request
     = Inl (ConnectionError connection_refused)
   \<and> \<not> is_Timeout (ConnectionError connection_refused)
   \<and> is_RequestException (ConnectionError connection_refused)
   \<and> main (mock_failure (ConnectionError connection_refused)) =
       (\<lparr>sent = [sent_request],
         stdout = error_prefix @ ''[Errno 111] Connection refused'' @ [newline]\<rparr>, Normal)"
  using request_error_prints_description
    [of "mock_failure (ConnectionError connection_refused)"
        "ConnectionError connection_refused"]
  by (simp add: mock_failure_def ConnectionError_def connection_refused_def)



text \<open>
  C7 (as amended). A failure to decode the content of a reply has no handler of its own:
  the exception that \<^verbatim>\<open>json()\<close> raises meets the same two clauses. When it is an instance
  of \<^verbatim>\<open>RequestException\<close> the run prints the request-error message with its description
  and ends normally; when it is not, nothing is printed and the exception is uncaught.
\<close>

theorem decode_failure_follows_exception_class:
  "post_outcome E sent_request = Inr r \<Longrightarrow>
   json_outcome E r = Inl e \<Longrightarrow>
   \<not> is_Timeout e \<Longrightarrow>
   main E =
     (if is_RequestException e
      then (\<lparr>sent = [sent_request], stdout = error_prefix @ descr e @ [newline]\<rparr>, Normal)
      else (\<lparr>sent = [sent_request], stdout = []\<rparr>, Uncaught e))"
  by (simp add: main_json_raises except_clauses_def print_def)

theorem decode_failure_follows_exception_class_witness:
  "post_outcome (mock_reply html_reply (json_JSONDecodeError expecting_value)) sent_request
     = Inr html_reply
   \<and> json_outcome (mock_reply html_reply (json_JSONDecodeError expecting_value)) html_reply
     = Inl (json_JSONDecodeError expecting_value)
   \<and> \<not> is_Timeout (json_JSONDecodeError expecting_value)
   \<and> \<not> is_RequestException (json_JSONDecodeError expecting_value)
   \<and> main (mock_reply html_reply (json_JSONDecodeError expecting_value)) =
       (\<lparr>sent = [sent_request], stdout = []\<rparr>, Uncaught (json_JSONDecodeError expecting_value))"
proof -
  let ?e = "json_JSONDecodeError expecting_value"
  have post: "post_outcome (mock_reply html_reply ?e) sent_request = Inr html_reply"
    by (simp add: mock_reply_def)
  have fails: "json_outcome (mock_reply html_reply ?e) html_reply = Inl ?e"
    by (simp add: mock_reply_def response_json_failed loads_html_reply)
  have neither: "\<not> is_Timeout ?e" "\<not> is_RequestException ?e"
    by (simp_all add: json_JSONDecodeError_def)
  from decode_failure_follows_exception_class [OF post fails neither(1)] post fails neither
  show ?thesis
    by (intro conjI) simp_all
qed

text \<open>
  C7 as stated fails: under a library whose \<^verbatim>\<open>json()\<close> raises
  \<^verbatim>\<open>requests.exceptions.JSONDecodeError\<close>, a reply with status 200 and content that is not
  JSON ends in the request-error message and a normal exit, not in an uncaught exception.
\<close>

theorem decode_failure_uncaught_counterexample:
  "loads (content html_reply) = None
   \<and> snd (main (mock_reply html_reply (requests_JSONDecodeError expecting_value))) = Normal
   \<and> stdout (fst (main (mock_reply html_reply (requests_JSONDecodeError expecting_value)))) =
       error_prefix @ ''Expecting value: line 1 column 1 (char 0)'' @ [newline]"
proof -
  let ?e = "requests_JSONDecodeError expecting_value"
  have post: "post_outcome (mock_reply html_reply ?e) sent_request = Inr html_reply"
    by (simp add: mock_reply_def)
  have fails: "json_outcome (mock_reply html_reply ?e) html_reply = Inl ?e"
    by (simp add: mock_reply_def response_json_failed loads_html_reply)
  have "main (mock_reply html_reply ?e) =
      except_clauses ?e \<lparr>sent = [sent_request], stdout = []\<rparr>"
    using main_json_raises [OF post fails] .
  then show ?thesis
    by (simp add: loads_html_reply except_clauses_def print_def requests_JSONDecodeError_def
        expecting_value_def)
qed


end
